theory Spec2Isabelle
  imports Main "HOL-Library.Word" "HOL-Library.Sublist" "HOL-Library.Multiset"
begin

section \<open>Strings and formatting (the Go library calls the server uses)\<close>

text \<open>
  A Go string is a byte sequence, here a \<^typ>\<open>string\<close>. \<open>strings.ToUpper\<close> and
  \<open>strings.ToLower\<close> are modelled on the ASCII letters (\<open>c -= 'a' - 'A'\<close> and back), which
  is what Go does on a string of ASCII bytes; a byte from \<open>0x80\<close> on is left as it is
  (Go maps such runes through the Unicode tables, which this development does not carry).
\<close>

definition upper_byte :: "char \<Rightarrow> char" where
  "upper_byte c =
     (let n = (of_char c :: nat) in if 97 \<le> n \<and> n \<le> 122 then char_of (n - 32) else c)"

definition lower_byte :: "char \<Rightarrow> char" where
  "lower_byte c =
     (let n = (of_char c :: nat) in if 65 \<le> n \<and> n \<le> 90 then char_of (n + 32) else c)"

definition ToUpper :: "string \<Rightarrow> string" where
  "ToUpper s = map upper_byte s"

definition ToLower :: "string \<Rightarrow> string" where
  "ToLower s = map lower_byte s"

text \<open>\<open>fmt.Sprintf("%d", n)\<close> for an \<open>int64\<close>: the decimal digits, a minus sign first.\<close>

fun nat_digits :: "nat \<Rightarrow> string" where
  "nat_digits n =
     (if n < 10 then [char_of (48 + n)]
      else nat_digits (n div 10) @ [char_of (48 + n mod 10)])"

declare nat_digits.simps [simp del]

definition Sprintf_d :: "int \<Rightarrow> string" where
  "Sprintf_d i = (if i < 0 then CHR ''-'' # nat_digits (nat (- i)) else nat_digits (nat i))"

section \<open>The data model\<close>

record TaskResponse =
  task_Message :: string
  TaskID :: string

record ApiResponse =
  api_Message :: string
  BackgroundTask :: TaskResponse

record ParameterInfo =
  param_Name :: string
  param_In :: string
  param_Description :: string
  param_Required :: bool
  param_Type :: string

record RouteInfo =
  Path :: string
  Method :: string
  Message :: string
  Description :: string
  Parameters :: "ParameterInfo list"
  Responses :: "int \<rightharpoonup> string"

text \<open>
  One method entry of the generated document, the Go literal
  \<open>{"summary": .., "responses": {"200": {"description": ..}}, "parameters": ..}\<close>.
\<close>

record Operation =
  summary :: string
  responses :: "string \<rightharpoonup> (string \<rightharpoonup> string)"
  parameters :: "ParameterInfo list"

record OpenAPI =
  openapi :: string
  info :: "string \<rightharpoonup> string"
  paths :: "string \<rightharpoonup> (string \<rightharpoonup> Operation)"
  components :: "string \<rightharpoonup> string"

text \<open>
  \<open>log.Printf(format, args...)\<close> and \<open>log.Println(line)\<close> are kept as the format with its
  arguments, in the order the program writes them.
\<close>

datatype log_entry = Printf string "string list" | Println string

text \<open>
  A buffered channel \<open>make(chan struct{}, 10)\<close>: its capacity and the number of tokens in
  its buffer. A \<open>TaskManager\<close> goroutine is at one of four control points: before its
  \<open>select\<close>, inside the task (slot acquired), at the deferred receive, or returned.
\<close>

record chan =
  chan_cap :: nat
  chan_len :: nat

datatype pc = AtSelect | Running | AtDefer | Returned

record task =
  task_id :: string
  taskChan :: nat
  task_pc :: pc

text \<open>
  The process-wide variables the handlers and the task runner read and write: the route
  registry, the log, the \<open>sync.Pool\<close> (the items put back into it, as channel indices),
  every channel made so far, the goroutines started, and whether \<open>taskCtx\<close> is done.
\<close>

record world =
  routes :: "string \<rightharpoonup> RouteInfo"
  logs :: "log_entry list"
  taskPool :: "nat list"
  chans :: "chan list"
  tasks :: "task list"
  taskCtx_done :: bool

definition log_write :: "log_entry \<Rightarrow> world \<Rightarrow> world" where
  "log_write e w = w\<lparr>logs := logs w @ [e]\<rparr>"

definition init_world :: world where
  "init_world =
     \<lparr>routes = Map.empty, logs = [], taskPool = [], chans = [], tasks = [],
      taskCtx_done = False\<rparr>"

section \<open>RegisterRoute\<close>

text \<open>
  The four arguments are C string pointers: \<open>None\<close> is the nil pointer, \<open>Some s\<close> points
  to the string \<open>s\<close> (\<open>C.GoString\<close>).
\<close>

definition new_route :: "string \<Rightarrow> string \<Rightarrow> string \<Rightarrow> string \<Rightarrow> RouteInfo" where
  "new_route path method message desc =
     \<lparr>Path = path, Method = method, Message = message, Description = desc,
      Parameters = [], Responses = [200 \<mapsto> ''Successful response'']\<rparr>"

definition RegisterRoute ::
  "string option \<Rightarrow> string option \<Rightarrow> string option \<Rightarrow> string option \<Rightarrow> world \<Rightarrow> world" where
  "RegisterRoute cPath cMethod cMessage cDesc w =
     (if cPath = None \<or> cMethod = None \<or> cMessage = None \<or> cDesc = None
      then log_write (Println ''Error: One or more parameters are nil in RegisterRoute'') w
      else
        let path = the cPath;
            method = ToUpper (the cMethod);
            message = the cMessage;
            desc = the cDesc;
            w1 = log_write (Printf ''Registering route: %s for method: %s with message: %s''
                              [path, method, message]) w;
            key = path @ method;
            w2 = w1\<lparr>routes := (routes w1)(key \<mapsto> new_route path method message desc)\<rparr>
        in log_write (Printf ''Route registered with key: %s'' [key]) w2)"

section \<open>Requests, responses and handlers\<close>

text \<open>
  What a handler reads of a request, and what the run of one request takes from outside
  the program: the clock (\<open>time.Now().UnixNano()\<close>, an \<open>int64\<close>), the order in which Go
  walks the \<open>routes\<close> map in a \<open>range\<close> loop (the language leaves it open), the error of
  \<open>json.NewEncoder(w).Encode\<close> (\<open>None\<close> for \<open>nil\<close>: the document was written), and the
  duration the logging middleware prints.
\<close>

record request =
  req_Method :: string
  URL_Path :: string
  RemoteAddr :: string

record env =
  now :: "64 word"
  range_order :: "string list"
  encode_err :: "string option"
  elapsed :: string

datatype body = JSON_ApiResponse ApiResponse | JSON_OpenAPI OpenAPI | Text string

text \<open>
  \<open>Reply status content_type body\<close> is a response one of this program's handlers writes;
  \<open>FileServerReply p\<close> is whatever \<open>http.FileServer\<close> answers for the file \<open>p\<close> of the
  directory \<open>swagger-ui\<close>; \<open>MuxReply\<close> is an answer of \<open>http.ServeMux\<close> itself (a redirect to
  the canonical path, or its own error), for which no registered handler runs.
\<close>

datatype response = Reply nat string body | FileServerReply string | MuxReply

type_synonym handler = "env \<Rightarrow> request \<Rightarrow> world \<Rightarrow> response \<times> world"

text \<open>\<open>http.Error\<close>: a plain-text response, the message followed by a newline.\<close>

definition http_Error :: "string \<Rightarrow> nat \<Rightarrow> response" where
  "http_Error msg code = Reply code ''text/plain; charset=utf-8'' (Text (msg @ [CHR 0x0A]))"

definition error_json :: "string \<Rightarrow> string" where
  "error_json errorMsg = ''{'' @ [CHR 0x22] @ ''error'' @ [CHR 0x22] @ '': '' @ [CHR 0x22]
     @ errorMsg @ [CHR 0x22] @ ''}''"

text \<open>
  A \<open>range\<close> loop over the map visits every entry once, in the order the runtime picks:
  the values met along a list of keys.
\<close>

definition iteration_order :: "(string \<rightharpoonup> RouteInfo) \<Rightarrow> string list \<Rightarrow> bool" where
  "iteration_order rs ks \<longleftrightarrow> distinct ks \<and> set ks = dom rs"

definition range_routes :: "(string \<rightharpoonup> RouteInfo) \<Rightarrow> string list \<Rightarrow> RouteInfo list" where
  "range_routes rs ks = List.map_filter rs ks"

definition taskPool_New :: chan where
  "taskPool_New = \<lparr>chan_cap = 10, chan_len = 0\<rparr>"

text \<open>
  \<open>taskPool.Get()\<close>: an item of the pool if it holds one, otherwise a new channel from
  \<open>New\<close>. The program never calls \<open>Put\<close>, so the pool never holds an item.
\<close>

definition taskPool_Get :: "world \<Rightarrow> nat \<times> world" where
  "taskPool_Get w =
     (case taskPool w of
        c # cs \<Rightarrow> (c, w\<lparr>taskPool := cs\<rparr>)
      | [] \<Rightarrow> (length (chans w), w\<lparr>chans := chans w @ [taskPool_New]\<rparr>))"

text \<open>\<open>go TaskManager(taskCtx, taskID, taskChan)\<close>: a new goroutine, before its \<open>select\<close>.\<close>

definition go_TaskManager :: "string \<Rightarrow> nat \<Rightarrow> world \<Rightarrow> world" where
  "go_TaskManager taskID c w =
     w\<lparr>tasks := tasks w @ [\<lparr>task_id = taskID, taskChan = c, task_pc = AtSelect\<rparr>]\<rparr>"

section \<open>ServeOpenAPI\<close>

definition route_operation :: "RouteInfo \<Rightarrow> Operation" where
  "route_operation route =
     \<lparr>summary = Description route,
      responses = [''200'' \<mapsto>
        [''description'' \<mapsto> (case Responses route 200 of Some d \<Rightarrow> d | None \<Rightarrow> [])]],
      parameters = Parameters route\<rparr>"

text \<open>The body of the loop over the routes, and the loop.\<close>

definition openapi_add ::
  "RouteInfo \<Rightarrow> (string \<rightharpoonup> (string \<rightharpoonup> Operation)) \<Rightarrow> (string \<rightharpoonup> (string \<rightharpoonup> Operation))" where
  "openapi_add route P =
     (let P1 = (if P (Path route) = None then P(Path route \<mapsto> Map.empty) else P);
          item = (case P1 (Path route) of Some m \<Rightarrow> m | None \<Rightarrow> Map.empty)
      in P1(Path route \<mapsto> item(ToLower (Method route) \<mapsto> route_operation route)))"

fun openapi_paths ::
  "RouteInfo list \<Rightarrow> (string \<rightharpoonup> (string \<rightharpoonup> Operation)) \<Rightarrow> (string \<rightharpoonup> (string \<rightharpoonup> Operation))" where
  "openapi_paths [] P = P"
| "openapi_paths (route # rest) P = openapi_paths rest (openapi_add route P)"

definition openapi_document :: "(string \<rightharpoonup> RouteInfo) \<Rightarrow> string list \<Rightarrow> OpenAPI" where
  "openapi_document rs ks =
     \<lparr>openapi = ''3.0.0'',
      info = [''title'' \<mapsto> ''GoServer API'', ''version'' \<mapsto> ''1.0.0''],
      paths = openapi_paths (range_routes rs ks) Map.empty,
      components = Map.empty\<rparr>"

definition ServeOpenAPI :: handler where
  "ServeOpenAPI e r w =
     (case encode_err e of
        None \<Rightarrow>
          (Reply 200 ''application/json''
             (JSON_OpenAPI (openapi_document (routes w) (range_order e))), w)
      | Some err \<Rightarrow> (http_Error (error_json ''Failed to generate OpenAPI'') 500, w))"

section \<open>The dynamic dispatcher\<close>

fun find_supportedMethod :: "RouteInfo list \<Rightarrow> string \<Rightarrow> string" where
  "find_supportedMethod [] p = []"
| "find_supportedMethod (rt # rts) p =
     (if Path rt = p then Method rt else find_supportedMethod rts p)"

definition not_found_message :: "request \<Rightarrow> string \<Rightarrow> string" where
  "not_found_message r supportedMethod =
     (let errorMsg = ''Route not found for '' @ req_Method r @ '' '' @ URL_Path r
      in if supportedMethod \<noteq> [] then errorMsg @ '' - Try using method '' @ supportedMethod
         else errorMsg)"

definition task_identifier :: "env \<Rightarrow> string" where
  "task_identifier e = ''task-'' @ Sprintf_d (sint (now e))"

definition success_envelope :: "RouteInfo \<Rightarrow> string \<Rightarrow> ApiResponse" where
  "success_envelope route taskID =
     \<lparr>api_Message = Message route,
      BackgroundTask =
        \<lparr>task_Message = ''Task started in background: '' @ taskID, TaskID = taskID\<rparr>\<rparr>"

definition Dispatcher :: handler where
  "Dispatcher e r w =
     (let key = URL_Path r @ req_Method r in
      case routes w key of
        None \<Rightarrow>
          (let supportedMethod =
                 find_supportedMethod (range_routes (routes w) (range_order e)) (URL_Path r);
               errorMsg = not_found_message r supportedMethod;
               w1 = log_write (Printf ''Route not found for key: %s (Path: %s, Method: %s)''
                                 [key, URL_Path r, req_Method r]) w
           in (http_Error (error_json errorMsg) 404, w1))
      | Some route \<Rightarrow>
          (let w1 = log_write (Printf ''Route found for key: %s, serving response'' [key]) w;
               taskID = task_identifier e;
               response = success_envelope route taskID
           in case encode_err e of
                Some err \<Rightarrow>
                  (http_Error (error_json ''Internal server error'') 500,
                   log_write (Printf ''Error encoding response: %v'' [err]) w1)
              | None \<Rightarrow>
                  (let (taskChan, w2) = taskPool_Get w1
                   in (Reply 200 ''application/json'' (JSON_ApiResponse response),
                       go_TaskManager taskID taskChan w2))))"

section \<open>The request multiplexer\<close>

text \<open>
  \<open>StartServer\<close> registers three patterns on an \<open>http.ServeMux\<close>: \<open>/openapi.json\<close> (one
  path), \<open>/swagger/\<close> (a subtree) and \<open>/\<close> (every other rooted path). As its documentation
  has it, the mux picks the most specific pattern; a path that is not canonical
  (\<open>cleanPath\<close>: no \<open>.\<close>, \<open>..\<close> or empty element) and the subtree root without its slash
  (\<open>/swagger\<close>) are answered by the mux itself with a redirect, and a \<open>CONNECT\<close> request is
  matched without canonicalisation.
\<close>

fun split_slash :: "string \<Rightarrow> string list" where
  "split_slash [] = [[]]"
| "split_slash (c # cs) =
     (if c = CHR ''/'' then [] # split_slash cs
      else (case split_slash cs of s # ss \<Rightarrow> (c # s) # ss | [] \<Rightarrow> [[c]]))"

fun clean_elements :: "string list \<Rightarrow> string list \<Rightarrow> string list" where
  "clean_elements [] out = out"
| "clean_elements (s # ss) out =
     (if s = [] \<or> s = ''.'' then clean_elements ss out
      else if s = ''..'' then clean_elements ss (butlast out)
      else clean_elements ss (out @ [s]))"

fun join_slash :: "string list \<Rightarrow> string" where
  "join_slash [] = []"
| "join_slash [s] = s"
| "join_slash (s # t # ss) = s @ ''/'' @ join_slash (t # ss)"

definition path_Clean :: "string \<Rightarrow> string" where
  "path_Clean p = ''/'' @ join_slash (clean_elements (split_slash p) [])"

definition cleanPath :: "string \<Rightarrow> string" where
  "cleanPath p =
     (if p = [] then ''/''
      else
        let p1 = (if hd p \<noteq> CHR ''/'' then CHR ''/'' # p else p);
            np = path_Clean p1
        in if last p1 = CHR ''/'' \<and> np \<noteq> ''/'' then np @ ''/'' else np)"

datatype mux_target = ByMux | ToServeOpenAPI | ToFileServer | ToDispatcher

definition mux_match :: "string \<Rightarrow> mux_target" where
  "mux_match p =
     (if p = ''/openapi.json'' then ToServeOpenAPI
      else if prefix ''/swagger/'' p then ToFileServer
      else if prefix ''/'' p then ToDispatcher
      else ByMux)"

definition ServeMux_Handler :: "request \<Rightarrow> mux_target" where
  "ServeMux_Handler r =
     (if req_Method r = ''CONNECT''
      then (if URL_Path r = ''/swagger'' then ByMux else mux_match (URL_Path r))
      else
        let path = cleanPath (URL_Path r)
        in if path = ''/swagger'' then ByMux
           else if path \<noteq> URL_Path r then ByMux
           else mux_match (URL_Path r))"

definition mux :: handler where
  "mux e r w =
     (case ServeMux_Handler r of
        ByMux \<Rightarrow> (MuxReply, w)
      | ToServeOpenAPI \<Rightarrow> ServeOpenAPI e r w
      | ToFileServer \<Rightarrow> (FileServerReply (drop (length ''/swagger/'') (URL_Path r)), w)
      | ToDispatcher \<Rightarrow> Dispatcher e r w)"

section \<open>Middleware and the server\<close>

definition loggingMiddleware :: "handler \<Rightarrow> handler" where
  "loggingMiddleware next e r w =
     (let (resp, w1) = next e r w
      in (resp, log_write (Printf ''%s %s from %s in %v''
                             [req_Method r, URL_Path r, RemoteAddr r, elapsed e]) w1))"

record server =
  globals :: world
  middlewares :: "(handler \<Rightarrow> handler) list"
  server_Handler :: "handler option"

definition RegisterMiddleware :: "string option \<Rightarrow> int \<Rightarrow> server \<Rightarrow> server" where
  "RegisterMiddleware cName cEnabled s =
     (case cName of
        None \<Rightarrow>
          s\<lparr>globals := log_write (Println ''Error: cName is nil in RegisterMiddleware'') (globals s)\<rparr>
      | Some name \<Rightarrow>
          (let enabled = (cEnabled \<noteq> 0) in
           if \<not> enabled
           then s\<lparr>globals := log_write (Printf ''Middleware %s is disabled'' [name]) (globals s)\<rparr>
           else if name = ''logging''
           then s\<lparr>middlewares := middlewares s @ [loggingMiddleware],
                  globals := log_write (Printf ''Registered middleware: %s'' [name]) (globals s)\<rparr>
           else s\<lparr>globals := log_write (Printf ''Unknown middleware: %s'' [name]) (globals s)\<rparr>))"

text \<open>
  The loop of \<open>StartServer\<close>, \<open>for i := len(middlewares) - 1; i >= 0; i--\<close>: the first
  argument of \<open>chain_loop\<close> is \<open>i + 1\<close>.
\<close>

fun chain_loop :: "nat \<Rightarrow> ('h \<Rightarrow> 'h) list \<Rightarrow> 'h \<Rightarrow> 'h" where
  "chain_loop 0 ms h = h"
| "chain_loop (Suc i) ms h = chain_loop i ms ((ms ! i) h)"

text \<open>The composition the specification names: \<open>wrappers[0](wrappers[1](...(terminal)))\<close>.\<close>

fun compose_wrappers :: "('h \<Rightarrow> 'h) list \<Rightarrow> 'h \<Rightarrow> 'h" where
  "compose_wrappers [] terminal = terminal"
| "compose_wrappers (w # ws) terminal = w (compose_wrappers ws terminal)"

text \<open>
  \<open>StartServer\<close> up to \<open>server.Handler = handler\<close>: a fresh task context, the chain built
  from the middleware slice as it is, the handler installed. \<open>StartServer_stop\<close> is what
  follows the stop signal: \<open>taskCancel()\<close> and the shutdown.
\<close>

definition StartServer_start :: "server \<Rightarrow> server" where
  "StartServer_start s =
     (let handler = chain_loop (length (middlewares s)) (middlewares s) mux
      in s\<lparr>globals := (globals s)\<lparr>taskCtx_done := False\<rparr>, server_Handler := Some handler\<rparr>)"

definition taskCancel :: "world \<Rightarrow> world" where
  "taskCancel w = w\<lparr>taskCtx_done := True\<rparr>"

definition StartServer_stop :: "server \<Rightarrow> server" where
  "StartServer_stop s =
     s\<lparr>globals := log_write (Println ''Server stopped'')
         (taskCancel (log_write (Println ''Shutting down server...'') (globals s)))\<rparr>"

section \<open>TaskManager\<close>

text \<open>
  One step of a \<open>TaskManager\<close> goroutine. At its \<open>select\<close> it can send a token into its
  channel (when the buffer has room) or see the context done (when it is); inside the task
  it can see the timer fire or the context done; on every exit the deferred function
  receives a token from the channel, which needs one in the buffer. \<open>None\<close>: the step is
  not possible in this state.
\<close>

datatype event = Send | CtxDone | Timer | Receive

definition set_pc :: "nat \<Rightarrow> pc \<Rightarrow> world \<Rightarrow> world" where
  "set_pc i p w = w\<lparr>tasks := (tasks w)[i := (tasks w ! i)\<lparr>task_pc := p\<rparr>]\<rparr>"

definition set_len :: "nat \<Rightarrow> nat \<Rightarrow> world \<Rightarrow> world" where
  "set_len c n w = w\<lparr>chans := (chans w)[c := (chans w ! c)\<lparr>chan_len := n\<rparr>]\<rparr>"

fun TaskManager_select :: "pc \<Rightarrow> event \<Rightarrow> nat \<Rightarrow> string \<Rightarrow> nat \<Rightarrow> chan \<Rightarrow> world \<Rightarrow> world option" where
  "TaskManager_select AtSelect Send i tid c ch w =
     (if chan_len ch < chan_cap ch
      then Some (log_write (Printf ''Starting background task %s'' [tid])
                   (set_pc i Running (set_len c (chan_len ch + 1) w)))
      else None)"
| "TaskManager_select AtSelect CtxDone i tid c ch w =
     (if taskCtx_done w
      then Some (log_write (Printf ''Task %s not started due to shutdown'' [tid])
                   (set_pc i AtDefer w))
      else None)"
| "TaskManager_select Running Timer i tid c ch w =
     Some (log_write (Printf ''Completed background task %s'' [tid]) (set_pc i AtDefer w))"
| "TaskManager_select Running CtxDone i tid c ch w =
     (if taskCtx_done w
      then Some (log_write (Printf ''Cancelled background task %s'' [tid]) (set_pc i AtDefer w))
      else None)"
| "TaskManager_select AtDefer Receive i tid c ch w =
     (if 0 < chan_len ch then Some (set_pc i Returned (set_len c (chan_len ch - 1) w))
      else None)"
| "TaskManager_select _ _ i tid c ch w = None"

definition TaskManager_step :: "nat \<Rightarrow> event \<Rightarrow> world \<Rightarrow> world option" where
  "TaskManager_step i ev w =
     (if length (tasks w) \<le> i then None
      else
        let t = tasks w ! i; c = taskChan t
        in if length (chans w) \<le> c then None
           else TaskManager_select (task_pc t) ev i (task_id t) c (chans w ! c) w)"

fun run_steps :: "(nat \<times> event) list \<Rightarrow> world \<Rightarrow> world option" where
  "run_steps [] w = Some w"
| "run_steps ((i, ev) # rest) w =
     (case TaskManager_step i ev w of None \<Rightarrow> None | Some w1 \<Rightarrow> run_steps rest w1)"

text \<open>The tasks that hold a slot and run, and the requests served one after the other.\<close>

definition running_tasks :: "world \<Rightarrow> nat" where
  "running_tasks w = length (filter (\<lambda>t. task_pc t = Running) (tasks w))"

fun serve_all :: "handler \<Rightarrow> (env \<times> request) list \<Rightarrow> world \<Rightarrow> world" where
  "serve_all h [] w = w"
| "serve_all h ((e, r) # rest) w = serve_all h rest (snd (h e r w))"

section \<open>The registry that registrations build, and the scenarios used below\<close>

text \<open>
  Every entry \<open>RegisterRoute\<close> stores sits under the key made of its own path and method,
  and its method is in upper case.
\<close>

definition registry_ok :: "(string \<rightharpoonup> RouteInfo) \<Rightarrow> bool" where
  "registry_ok rs \<longleftrightarrow>
     (\<forall>k route. rs k = Some route \<longrightarrow> k = Path route @ Method route \<and> ToUpper (Method route) = Method route)"

definition http_request :: "string \<Rightarrow> string \<Rightarrow> request" where
  "http_request m p = \<lparr>req_Method = m, URL_Path = p, RemoteAddr = ''127.0.0.1:40000''\<rparr>"

definition at_time :: "64 word \<Rightarrow> string list \<Rightarrow> env" where
  "at_time t ks = \<lparr>now = t, range_order = ks, encode_err = None, elapsed = ''1ms''\<rparr>"

definition register :: "string \<Rightarrow> string \<Rightarrow> string \<Rightarrow> string \<Rightarrow> world \<Rightarrow> world" where
  "register p m msg d w = RegisterRoute (Some p) (Some m) (Some msg) (Some d) w"

definition hello_world :: world where
  "hello_world = register ''/hello'' ''GET'' ''Hi there'' ''greets the caller'' init_world"

definition openapi_world :: world where
  "openapi_world = register ''/openapi.json'' ''GET'' ''Hi there'' ''greets the caller'' init_world"


definition collision_world :: world where
  "collision_world = register ''/a'' ''BGET'' ''Hi there'' ''greets the caller'' init_world"

definition no_method_world :: world where
  "no_method_world = register ''/hello'' [] ''Hi there'' ''greets the caller'' init_world"


text \<open>
  Eleven requests for the registered route, each followed by the first step of its task;
  and one request whose task has not reached its \<open>select\<close> when the server is stopped.
\<close>

definition eleven_dispatches :: "(env \<times> request) list" where
  "eleven_dispatches =
     map (\<lambda>t. (at_time (of_nat t) [''/helloGET''], http_request ''GET'' ''/hello'')) [1..<12]"

definition eleven_sends :: "(nat \<times> event) list" where
  "eleven_sends = map (\<lambda>i. (i, Send)) [0..<11]"

definition cancelled_world :: world where
  "cancelled_world =
     taskCancel (snd (mux (at_time 42 [''/helloGET'']) (http_request ''GET'' ''/hello'') hello_world))"



section \<open>Properties\<close>

subsection \<open>Case mapping\<close>


lemma upper_upper_byte: "upper_byte (upper_byte c) = upper_byte c"
  unfolding upper_byte_def Let_def by auto


lemma ToUpper_idem: "ToUpper (ToUpper s) = ToUpper s"
  by (simp add: ToUpper_def upper_upper_byte)


lemma ToUpper_GET: "ToUpper ''GET'' = ''GET''" by code_simp

lemma ToUpper_get: "ToUpper ''get'' = ''GET''" by code_simp

lemma ToUpper_BGET: "ToUpper ''BGET'' = ''BGET''" by code_simp


lemma ToUpper_Nil: "ToUpper [] = []" by (simp add: ToUpper_def)

subsection \<open>The inputs of the scenarios\<close>

lemma Sprintf_d_42: "Sprintf_d 42 = ''42''"
  by code_simp

lemma sint_42: "sint (42 :: 64 word) = 42"
  by simp

lemma at_time_simps [simp]:
  "now (at_time t ks) = t" "range_order (at_time t ks) = ks" "encode_err (at_time t ks) = None"
  by (simp_all add: at_time_def)

lemma http_request_simps [simp]:
  "req_Method (http_request m p) = m" "URL_Path (http_request m p) = p"
  by (simp_all add: http_request_def)

subsection \<open>RegisterRoute and the registry\<close>

text \<open>
  What a registration stores, and that the registry keeps the shape \<open>registry_ok\<close> describes.
\<close>

lemma RegisterRoute_nil:
  "cPath = None \<or> cMethod = None \<or> cMessage = None \<or> cDesc = None \<Longrightarrow>
   RegisterRoute cPath cMethod cMessage cDesc w =
     log_write (Println ''Error: One or more parameters are nil in RegisterRoute'') w"
  by (simp add: RegisterRoute_def)

lemma routes_log_write [simp]: "routes (log_write e w) = routes w"
  by (simp add: log_write_def)

lemma routes_register:
  "routes (register p m msg d w) = (routes w)(p @ ToUpper m \<mapsto> new_route p (ToUpper m) msg d)"
  by (simp add: register_def RegisterRoute_def Let_def)

lemma registry_ok_init: "registry_ok (routes init_world)"
  by (simp add: registry_ok_def init_world_def)

lemma registry_ok_register:
  "registry_ok (routes w) \<Longrightarrow> registry_ok (routes (register p m msg d w))"
  by (auto simp: registry_ok_def routes_register new_route_def ToUpper_idem)


lemma routes_hello_world:
  "routes hello_world = [''/helloGET'' \<mapsto> new_route ''/hello'' ''GET'' ''Hi there'' ''greets the caller'']"
  by (simp add: hello_world_def routes_register ToUpper_GET init_world_def)

lemma routes_openapi_world:
  "routes openapi_world =
     [''/openapi.jsonGET'' \<mapsto> new_route ''/openapi.json'' ''GET'' ''Hi there'' ''greets the caller'']"
  by (simp add: openapi_world_def routes_register ToUpper_GET init_world_def)

lemma ran_routes_hello_world:
  "ran (routes hello_world) = {new_route ''/hello'' ''GET'' ''Hi there'' ''greets the caller''}"
  by (simp add: routes_hello_world)

lemma range_routes_hello_world:
  "range_routes (routes hello_world) [''/helloGET''] =
     [new_route ''/hello'' ''GET'' ''Hi there'' ''greets the caller'']"
  by (simp add: range_routes_def routes_hello_world)

lemma routes_collision_world:
  "routes collision_world = [''/aBGET'' \<mapsto> new_route ''/a'' ''BGET'' ''Hi there'' ''greets the caller'']"
  by (simp add: collision_world_def routes_register ToUpper_BGET init_world_def)

lemma routes_no_method_world:
  "routes no_method_world = [''/hello'' \<mapsto> new_route ''/hello'' [] ''Hi there'' ''greets the caller'']"
  by (simp add: no_method_world_def routes_register ToUpper_Nil init_world_def)



subsection \<open>Walking the registry\<close>

text \<open>
  A walk in any order of the keys meets exactly the routes of the registry.
\<close>

lemma set_map_filter: "set (List.map_filter f xs) = {y. \<exists>x \<in> set xs. f x = Some y}"
  by (induction xs) (auto split: option.splits)

lemma set_range_routes: "set ks = dom rs \<Longrightarrow> set (range_routes rs ks) = ran rs"
  by (auto simp: range_routes_def set_map_filter ran_def dom_def)

lemma find_supportedMethod_none:
  "\<forall>rt \<in> set l. Path rt \<noteq> p \<Longrightarrow> find_supportedMethod l p = []"
  by (induction l) auto

lemma find_supportedMethod_some:
  "\<exists>rt \<in> set l. Path rt = p \<Longrightarrow> \<exists>rt \<in> set l. Path rt = p \<and> find_supportedMethod l p = Method rt"
  by (induction l) auto


subsection \<open>The mux\<close>

text \<open>
  Which handler the mux picks for a request.
\<close>

lemma cleanPath_hello: "cleanPath ''/hello'' = ''/hello''"
  by (simp add: cleanPath_def path_Clean_def)

lemma ServeMux_Handler_hello: "ServeMux_Handler (http_request m ''/hello'') = ToDispatcher"
  by (simp add: ServeMux_Handler_def http_request_def cleanPath_hello mux_match_def)

lemma cleanPath_openapi: "cleanPath ''/openapi.json'' = ''/openapi.json''"
  by (simp add: cleanPath_def path_Clean_def)

lemma ServeMux_Handler_openapi:
  "URL_Path r = ''/openapi.json'' \<Longrightarrow> ServeMux_Handler r = ToServeOpenAPI"
  by (simp add: ServeMux_Handler_def cleanPath_openapi mux_match_def)



lemma ServeMux_Handler_ToDispatcher_iff:
  "ServeMux_Handler r = ToDispatcher \<longleftrightarrow>
     prefix ''/'' (URL_Path r) \<and> URL_Path r \<noteq> ''/openapi.json'' \<and> URL_Path r \<noteq> ''/swagger''
     \<and> \<not> prefix ''/swagger/'' (URL_Path r)
     \<and> (req_Method r = ''CONNECT'' \<or> cleanPath (URL_Path r) = URL_Path r)"
  by (auto simp: ServeMux_Handler_def Let_def mux_match_def)

lemma mux_ToDispatcher: "ServeMux_Handler r = ToDispatcher \<Longrightarrow> mux e r w = Dispatcher e r w"
  by (simp add: mux_def)

lemma mux_openapi: "URL_Path r = ''/openapi.json'' \<Longrightarrow> mux e r w = ServeOpenAPI e r w"
  by (simp add: mux_def ServeMux_Handler_openapi)

lemma ServeMux_Handler_aB: "ServeMux_Handler (http_request ''GET'' ''/aB'') = ToDispatcher"
  by (simp add: ServeMux_Handler_ToDispatcher_iff cleanPath_def path_Clean_def)





subsection \<open>The dispatcher\<close>

lemma Dispatcher_found:
  "routes w (URL_Path r @ req_Method r) = Some route \<Longrightarrow> encode_err e = None \<Longrightarrow>
   fst (Dispatcher e r w) =
     Reply 200 ''application/json'' (JSON_ApiResponse (success_envelope route (task_identifier e)))"
  by (simp add: Dispatcher_def Let_def split_def)

lemma Dispatcher_not_found:
  "routes w (URL_Path r @ req_Method r) = None \<Longrightarrow>
   fst (Dispatcher e r w) =
     http_Error (error_json (not_found_message r
       (find_supportedMethod (range_routes (routes w) (range_order e)) (URL_Path r)))) 404"
  by (simp add: Dispatcher_def Let_def)

lemma Dispatcher_fresh_channel:
  assumes "routes w (URL_Path r @ req_Method r) = Some route"
    and "encode_err e = None" and "taskPool w = []"
  shows "chans (snd (Dispatcher e r w)) = chans w @ [\<lparr>chan_cap = 10, chan_len = 0\<rparr>]
    \<and> tasks (snd (Dispatcher e r w))
        = tasks w @ [\<lparr>task_id = task_identifier e, taskChan = length (chans w), task_pc = AtSelect\<rparr>]
    \<and> taskPool (snd (Dispatcher e r w)) = []"
  using assms
  by (simp add: Dispatcher_def Let_def taskPool_Get_def taskPool_New_def go_TaskManager_def
      log_write_def)

subsection \<open>The middleware chain\<close>

text \<open>
  The loop of \<open>StartServer\<close> against the composition, and the response seen through the installed
  chain: the only middleware \<open>RegisterMiddleware\<close> ever appends passes the response of the mux on.
\<close>

lemma compose_wrappers_snoc:
  "compose_wrappers (ws @ [m]) h = compose_wrappers ws (m h)"
  by (induction ws) simp_all

lemma chain_loop_take:
  "n \<le> length ms \<Longrightarrow> chain_loop n ms h = compose_wrappers (take n ms) h"
proof (induction n arbitrary: h)
  case 0
  show ?case by simp
next
  case (Suc n)
  then have "take (Suc n) ms = take n ms @ [ms ! n]"
    by (simp add: take_Suc_conv_app_nth)
  with Suc show ?case
    by (simp add: compose_wrappers_snoc)
qed

lemma chain_loop_compose: "chain_loop (length ms) ms h = compose_wrappers ms h"
  by (simp add: chain_loop_take)

lemma server_Handler_RegisterMiddleware:
  "server_Handler (RegisterMiddleware cName cEnabled s) = server_Handler s"
  by (simp add: RegisterMiddleware_def Let_def split: option.splits)

lemma fst_loggingMiddleware: "fst (loggingMiddleware next e r w) = fst (next e r w)"
  by (simp add: loggingMiddleware_def split_def Let_def)

lemma routes_loggingMiddleware:
  "routes (snd (loggingMiddleware next e r w)) = routes (snd (next e r w))"
  by (simp add: loggingMiddleware_def split_def Let_def)

lemma fst_compose_logging:
  "set ms \<subseteq> {loggingMiddleware} \<Longrightarrow> fst (compose_wrappers ms h e r w) = fst (h e r w)"
  by (induction ms) (auto simp: fst_loggingMiddleware)

lemma middlewares_RegisterMiddleware:
  "set (middlewares s) \<subseteq> {loggingMiddleware} \<Longrightarrow>
   set (middlewares (RegisterMiddleware cName cEnabled s)) \<subseteq> {loggingMiddleware}"
  by (auto simp: RegisterMiddleware_def Let_def split: option.splits if_splits)

lemma installed_handler_response:
  assumes "set (middlewares s) \<subseteq> {loggingMiddleware}"
    and "server_Handler (StartServer_start s) = Some h"
  shows "fst (h e r w) = fst (mux e r w)"
  using assms by (auto simp: StartServer_start_def chain_loop_compose fst_compose_logging)

subsection \<open>The generated document\<close>















subsection \<open>The task runner\<close>

text \<open>
  A task that has taken a slot gives it back on both ways out; one that sees the context
  done first stops at the deferred receive when its channel is empty.
\<close>

lemma TaskManager_not_started_blocks:
  assumes "i < length (tasks w)" and "taskChan (tasks w ! i) < length (chans w)"
    and "task_pc (tasks w ! i) = AtSelect" and "taskCtx_done w"
    and "chan_len (chans w ! taskChan (tasks w ! i)) = 0"
  shows "\<exists>w1. TaskManager_step i CtxDone w = Some w1
      \<and> task_pc (tasks w1 ! i) = AtDefer \<and> chans w1 = chans w
      \<and> (\<forall>ev. TaskManager_step i ev w1 = None)"
proof -
  let ?w1 = "log_write (Printf ''Task %s not started due to shutdown'' [task_id (tasks w ! i)])
               (set_pc i AtDefer w)"
  have s: "TaskManager_step i CtxDone w = Some ?w1"
    using assms by (simp add: TaskManager_step_def Let_def)
  have t: "tasks ?w1 = (tasks w)[i := (tasks w ! i)\<lparr>task_pc := AtDefer\<rparr>]" and c: "chans ?w1 = chans w"
    by (simp_all add: log_write_def set_pc_def)
  have "TaskManager_step i ev ?w1 = None" for ev
    using assms by (cases ev) (simp_all add: TaskManager_step_def Let_def t c)
  with s t c assms(1) show ?thesis by simp
qed

lemma TaskManager_completed_releases:
  assumes "i < length (tasks w)" and "taskChan (tasks w ! i) < length (chans w)"
    and "task_pc (tasks w ! i) = AtSelect"
    and "chan_len (chans w ! taskChan (tasks w ! i)) < chan_cap (chans w ! taskChan (tasks w ! i))"
  shows "\<exists>w3. run_steps [(i, Send), (i, Timer), (i, Receive)] w = Some w3
      \<and> task_pc (tasks w3 ! i) = Returned \<and> chans w3 = chans w"
  using assms
  by (simp add: TaskManager_step_def Let_def set_pc_def set_len_def log_write_def list_update_same_conv)

lemma TaskManager_cancelled_releases:
  assumes "i < length (tasks w)" and "taskChan (tasks w ! i) < length (chans w)"
    and "task_pc (tasks w ! i) = AtSelect" and "taskCtx_done w"
    and "chan_len (chans w ! taskChan (tasks w ! i)) < chan_cap (chans w ! taskChan (tasks w ! i))"
  shows "\<exists>w3. run_steps [(i, Send), (i, CtxDone), (i, Receive)] w = Some w3
      \<and> task_pc (tasks w3 ! i) = Returned \<and> chans w3 = chans w"
  using assms
  by (simp add: TaskManager_step_def Let_def set_pc_def set_len_def log_write_def list_update_same_conv)

section \<open>The claims of the specification\<close>

text \<open>
  Claim C1, as the code has it. A request whose path and method make up a key of the
  registry, and which the mux hands to the dynamic handler, is answered with status 200 and
  the success envelope: the message of the route stored under that key, and a background
  task whose identifier is \<open>task-\<close> followed by the decimal clock reading in nanoseconds,
  once in \<open>task_id\<close> and once after \<open>Task started in background: \<close>. This is the case
  where the encoder reports no error; the mux hands over every canonical rooted path other
  than \<open>/openapi.json\<close>, \<open>/swagger\<close> and the paths under \<open>/swagger/\<close>
  (lemma \<open>ServeMux_Handler_ToDispatcher_iff\<close>), and the installed middleware chain passes
  the response of the mux on (lemma \<open>installed_handler_response\<close>).
\<close>

theorem C1_registered_route_served:
  assumes "routes w (URL_Path r @ req_Method r) = Some route"
    and "ServeMux_Handler r = ToDispatcher"
    and "encode_err e = None"
  shows "fst (mux e r w) =
     Reply 200 ''application/json''
       (JSON_ApiResponse
          \<lparr>api_Message = Message route,
           BackgroundTask =
             \<lparr>task_Message = ''Task started in background: '' @ ''task-'' @ Sprintf_d (sint (now e)),
              TaskID = ''task-'' @ Sprintf_d (sint (now e))\<rparr>\<rparr>)"
  using assms
  by (simp add: mux_ToDispatcher Dispatcher_found success_envelope_def task_identifier_def)

text \<open>
  The scenario of the specification: \<open>/hello\<close> registered for \<open>GET\<close> with the message
  \<open>Hi there\<close>, and \<open>GET /hello\<close> at clock reading 42.
\<close>

theorem C1_registered_route_served_witness:
  "routes hello_world (URL_Path (http_request ''GET'' ''/hello'') @ req_Method (http_request ''GET'' ''/hello''))
     = Some (new_route ''/hello'' ''GET'' ''Hi there'' ''greets the caller'')
   \<and> ServeMux_Handler (http_request ''GET'' ''/hello'') = ToDispatcher
   \<and> encode_err (at_time 42 [''/helloGET'']) = None
   \<and> fst (mux (at_time 42 [''/helloGET'']) (http_request ''GET'' ''/hello'') hello_world) =
       Reply 200 ''application/json''
         (JSON_ApiResponse
            \<lparr>api_Message = ''Hi there'',
             BackgroundTask =
               \<lparr>task_Message = ''Task started in background: task-42'', TaskID = ''task-42''\<rparr>\<rparr>)"
proof -
  have a: "routes hello_world (URL_Path (http_request ''GET'' ''/hello'') @ req_Method (http_request ''GET'' ''/hello''))
     = Some (new_route ''/hello'' ''GET'' ''Hi there'' ''greets the caller'')"
    by (simp add: routes_hello_world http_request_def)
  have b: "ServeMux_Handler (http_request ''GET'' ''/hello'') = ToDispatcher"
    by (rule ServeMux_Handler_hello)
  have c: "encode_err (at_time 42 [''/helloGET'']) = None"
    by (simp add: at_time_def)
  from C1_registered_route_served [OF a b c] a b c show ?thesis
    by (simp add: new_route_def at_time_def sint_42 Sprintf_d_42)
qed

text \<open>
  Claim C1 as it is worded covers every registered route. A route registered under the path
  \<open>/openapi.json\<close> is in the registry under the key of the request \<open>GET /openapi.json\<close>,
  and that request is answered with the API description document, not with the envelope.
\<close>

theorem C1_counterexample:
  "routes openapi_world (URL_Path (http_request ''GET'' ''/openapi.json'') @ req_Method (http_request ''GET'' ''/openapi.json''))
     = Some (new_route ''/openapi.json'' ''GET'' ''Hi there'' ''greets the caller'')
   \<and> fst (mux (at_time 42 [''/openapi.jsonGET'']) (http_request ''GET'' ''/openapi.json'') openapi_world)
     = Reply 200 ''application/json''
         (JSON_OpenAPI (openapi_document (routes openapi_world) [''/openapi.jsonGET'']))"
  by (simp add: routes_openapi_world http_request_def mux_openapi ServeOpenAPI_def at_time_def)

text \<open>
  Claim C2 asks that at most ten background tasks hold a slot at any instant. Each request
  draws its channel from the pool with \<open>Get\<close>, nothing is ever put back, so each task gets
  a channel of its own with ten free places. After eleven requests for the registered route
  and the first step of each of their tasks, eleven tasks are running at once: each holds
  one token in its own channel (channels 0 to 10, each of capacity 10), and the pool is
  empty.
\<close>

theorem C2_eleven_tasks_hold_slots:
  "map_option (\<lambda>w. (running_tasks w, map taskChan (tasks w), map chan_len (chans w),
                     map chan_cap (chans w), taskPool w))
     (run_steps eleven_sends (serve_all mux eleven_dispatches hello_world))
   = Some (11, [0, 1, 2, 3, 4, 5, 6, 7, 8, 9, 10], [1, 1, 1, 1, 1, 1, 1, 1, 1, 1, 1],
           [10, 10, 10, 10, 10, 10, 10, 10, 10, 10, 10], [])"
  by code_simp

text \<open>
  Claim C3 asks that a task runner which finds the context cancelled before it has a slot
  logs \<open>not started due to shutdown\<close> and returns without taking or giving back a slot.
  The deferred receive is registered before the \<open>select\<close> and runs on this path too. In
  the scenario the task of \<open>GET /hello\<close> is started, the context is cancelled, and the
  task takes the \<open>ctx.Done()\<close> branch of its \<open>select\<close>: the line is logged, the task
  stands at the deferred receive, its channel is empty, and no step of the task is possible
  any more. It never returns.
\<close>

theorem C3_not_started_task_blocks_at_release:
  "map_option (\<lambda>w. (map task_pc (tasks w), map chan_len (chans w), last (logs w)))
     (TaskManager_step 0 CtxDone cancelled_world)
   = Some ([AtDefer], [0], Printf ''Task %s not started due to shutdown'' [''task-42''])
   \<and> (case TaskManager_step 0 CtxDone cancelled_world of
         None \<Rightarrow> []
       | Some w \<Rightarrow> map (\<lambda>ev. Option.is_none (TaskManager_step 0 ev w)) [Send, CtxDone, Timer, Receive])
     = [True, True, True, True]"
  by code_simp

text \<open>
  Claim C4 asks that the dispatcher looks a request up under its path followed by its
  method in upper case. \<open>RegisterRoute\<close> stores the route under the upper-cased method;
  the dispatcher uses the method of the request as it came. With \<open>/hello\<close> registered
  for \<open>GET\<close>, the key made with the upper-cased method of the request \<open>get /hello\<close>
  is in the registry, and the request is answered with status 404 and a hint to use
  \<open>GET\<close>.
\<close>

theorem C4_lowercase_method_not_matched:
  "routes hello_world (''/hello'' @ ToUpper ''get'')
     = Some (new_route ''/hello'' ''GET'' ''Hi there'' ''greets the caller'')
   \<and> fst (mux (at_time 42 [''/helloGET'']) (http_request ''get'' ''/hello'') hello_world)
     = Reply 404 ''text/plain; charset=utf-8''
         (Text (error_json ''Route not found for get /hello - Try using method GET'' @ [CHR 0x0A]))"
proof -
  let ?r = "http_request ''get'' ''/hello''" and ?e = "at_time 42 [''/helloGET'']"
  have "routes hello_world (URL_Path ?r @ req_Method ?r) = None"
    by (simp add: routes_hello_world)
  from Dispatcher_not_found [OF this, of ?e]
  have "fst (Dispatcher ?e ?r hello_world) =
      http_Error (error_json (not_found_message ?r
        (find_supportedMethod (range_routes (routes hello_world) [''/helloGET'']) ''/hello''))) 404"
    by simp
  moreover have "find_supportedMethod (range_routes (routes hello_world) [''/helloGET'']) ''/hello'' = ''GET''"
    by (simp add: range_routes_hello_world new_route_def)
  moreover have "not_found_message ?r ''GET'' = ''Route not found for get /hello - Try using method GET''"
    by (simp add: not_found_message_def)
  moreover have "mux ?e ?r hello_world = Dispatcher ?e ?r hello_world"
    by (simp add: mux_ToDispatcher ServeMux_Handler_hello)
  moreover have "routes hello_world (''/hello'' @ ToUpper ''get'')
     = Some (new_route ''/hello'' ''GET'' ''Hi there'' ''greets the caller'')"
    by (simp add: routes_hello_world ToUpper_get)
  ultimately show ?thesis
    by (simp add: http_Error_def)
qed

text \<open>
  Claim C5, as the code has it. A request that the mux hands to the dynamic handler and
  whose key (path followed by method) is not in the registry is answered with status 404 and
  a plain-text body holding the error object. When no route has the path of the request,
  the message names the method and the path and carries no hint. When some route has that
  path, and the routes on that path all have a method that is not the empty string, the
  message ends with the hint to use the method of one of them (the first one the walk over
  the map meets); in a registry built by \<open>RegisterRoute\<close> that method differs from the
  one of the request.
\<close>

theorem C5_unregistered_key_not_found:
  assumes "ServeMux_Handler r = ToDispatcher"
    and "routes w (URL_Path r @ req_Method r) = None"
    and "iteration_order (routes w) (range_order e)"
  shows "(\<exists>b. fst (mux e r w) = Reply 404 ''text/plain; charset=utf-8'' (Text b))
    \<and> ((\<forall>route \<in> ran (routes w). Path route \<noteq> URL_Path r) \<longrightarrow>
          fst (mux e r w) = Reply 404 ''text/plain; charset=utf-8''
            (Text (error_json (''Route not found for '' @ req_Method r @ '' '' @ URL_Path r) @ [CHR 0x0A])))
    \<and> ((\<exists>route \<in> ran (routes w). Path route = URL_Path r)
        \<and> (\<forall>route \<in> ran (routes w). Path route = URL_Path r \<longrightarrow> Method route \<noteq> []) \<longrightarrow>
          (\<exists>route \<in> ran (routes w). Path route = URL_Path r
             \<and> (registry_ok (routes w) \<longrightarrow> Method route \<noteq> req_Method r)
             \<and> fst (mux e r w) = Reply 404 ''text/plain; charset=utf-8''
                 (Text (error_json (''Route not found for '' @ req_Method r @ '' '' @ URL_Path r
                          @ '' - Try using method '' @ Method route)
                        @ [CHR 0x0A]))))"
proof -
  let ?l = "range_routes (routes w) (range_order e)"
  have set_l: "set ?l = ran (routes w)"
    using assms(3) by (simp add: iteration_order_def set_range_routes)
  have resp: "fst (mux e r w) =
      http_Error (error_json (not_found_message r (find_supportedMethod ?l (URL_Path r)))) 404"
    using assms(1,2) by (simp add: mux_ToDispatcher Dispatcher_not_found)
  have one: "\<exists>b. fst (mux e r w) = Reply 404 ''text/plain; charset=utf-8'' (Text b)"
    by (simp add: resp http_Error_def)
  have two: "fst (mux e r w) = Reply 404 ''text/plain; charset=utf-8''
            (Text (error_json (''Route not found for '' @ req_Method r @ '' '' @ URL_Path r) @ [CHR 0x0A]))"
    if "\<forall>route \<in> ran (routes w). Path route \<noteq> URL_Path r"
  proof -
    from that set_l have "find_supportedMethod ?l (URL_Path r) = []"
      by (simp add: find_supportedMethod_none)
    then show ?thesis
      by (simp add: resp http_Error_def not_found_message_def)
  qed
  have three: "\<exists>route \<in> ran (routes w). Path route = URL_Path r
             \<and> (registry_ok (routes w) \<longrightarrow> Method route \<noteq> req_Method r)
             \<and> fst (mux e r w) = Reply 404 ''text/plain; charset=utf-8''
                 (Text (error_json (''Route not found for '' @ req_Method r @ '' '' @ URL_Path r
                          @ '' - Try using method '' @ Method route)
                        @ [CHR 0x0A]))"
    if some: "\<exists>route \<in> ran (routes w). Path route = URL_Path r"
      and named: "\<forall>route \<in> ran (routes w). Path route = URL_Path r \<longrightarrow> Method route \<noteq> []"
  proof -
    from some set_l have "\<exists>rt \<in> set ?l. Path rt = URL_Path r" by simp
    from find_supportedMethod_some [OF this] set_l
    obtain rt where rt: "rt \<in> ran (routes w)" "Path rt = URL_Path r"
      "find_supportedMethod ?l (URL_Path r) = Method rt" by auto
    from named rt(1,2) have ne: "Method rt \<noteq> []" by blast
    have "Method rt \<noteq> req_Method r" if ok: "registry_ok (routes w)"
    proof
      assume same: "Method rt = req_Method r"
      from rt(1) obtain k where k: "routes w k = Some rt" by (auto simp: ran_def)
      with ok have "k = Path rt @ Method rt" by (auto simp: registry_ok_def)
      with k rt(2) same assms(2) show False by simp
    qed
    moreover have "fst (mux e r w) = Reply 404 ''text/plain; charset=utf-8''
                 (Text (error_json (''Route not found for '' @ req_Method r @ '' '' @ URL_Path r
                          @ '' - Try using method '' @ Method rt)
                        @ [CHR 0x0A]))"
      using ne by (simp add: resp rt(3) http_Error_def not_found_message_def)
    ultimately show ?thesis using rt(1,2) by blast
  qed
  from one two three show ?thesis by blast
qed

text \<open>
  The scenario of the specification: \<open>POST /hello\<close> when \<open>/hello\<close> is registered for
  \<open>GET\<close> only.
\<close>

theorem C5_unregistered_key_not_found_witness:
  "ServeMux_Handler (http_request ''POST'' ''/hello'') = ToDispatcher
   \<and> routes hello_world (URL_Path (http_request ''POST'' ''/hello'') @ req_Method (http_request ''POST'' ''/hello'')) = None
   \<and> iteration_order (routes hello_world) (range_order (at_time 42 [''/helloGET'']))
   \<and> registry_ok (routes hello_world)
   \<and> fst (mux (at_time 42 [''/helloGET'']) (http_request ''POST'' ''/hello'') hello_world)
       = Reply 404 ''text/plain; charset=utf-8''
           (Text (error_json ''Route not found for POST /hello - Try using method GET'' @ [CHR 0x0A]))"
proof -
  let ?r = "http_request ''POST'' ''/hello''" and ?e = "at_time 42 [''/helloGET'']"
  have a: "ServeMux_Handler ?r = ToDispatcher" by (rule ServeMux_Handler_hello)
  have b: "routes hello_world (URL_Path ?r @ req_Method ?r) = None"
    by (simp add: routes_hello_world)
  have c: "iteration_order (routes hello_world) (range_order ?e)"
    by (simp add: iteration_order_def routes_hello_world)
  have d: "registry_ok (routes hello_world)"
    unfolding hello_world_def by (intro registry_ok_register registry_ok_init)
  have "\<exists>route \<in> ran (routes hello_world). Path route = URL_Path ?r"
    by (simp add: ran_routes_hello_world new_route_def)
  with C5_unregistered_key_not_found [OF a b c]
  have "fst (mux ?e ?r hello_world) = Reply 404 ''text/plain; charset=utf-8''
           (Text (error_json ''Route not found for POST /hello - Try using method GET'' @ [CHR 0x0A]))"
    by (auto simp: ran_routes_hello_world new_route_def)
  with a b c d show ?thesis by blast
qed

text \<open>
  Claim C5 as it is worded covers every request whose path and method are not registered
  as a pair, and promises a hint whenever the path is registered under another method.
  Three requests show where the code differs. \<open>GET /openapi.json\<close> on the empty registry
  is answered with status 200 and the API description document. With the single route
  \<open>/a\<close> for the method \<open>BGET\<close>, the request \<open>GET /aB\<close> has the same key
  \<open>/aBGET\<close> and is answered with status 200 and the envelope of that route. With
  \<open>/hello\<close> registered under the empty method, \<open>POST /hello\<close> gets status 404 without
  a hint.
\<close>

theorem C5_counterexample:
  "routes init_world (''/openapi.json'' @ ''GET'') = None
   \<and> fst (mux (at_time 42 []) (http_request ''GET'' ''/openapi.json'') init_world)
       = Reply 200 ''application/json'' (JSON_OpenAPI (openapi_document (routes init_world) []))
   \<and> routes collision_world = [''/aBGET'' \<mapsto> new_route ''/a'' ''BGET'' ''Hi there'' ''greets the caller'']
   \<and> fst (mux (at_time 42 [''/aBGET'']) (http_request ''GET'' ''/aB'') collision_world)
       = Reply 200 ''application/json''
           (JSON_ApiResponse
              \<lparr>api_Message = ''Hi there'',
               BackgroundTask =
                 \<lparr>task_Message = ''Task started in background: task-42'', TaskID = ''task-42''\<rparr>\<rparr>)
   \<and> routes no_method_world = [''/hello'' \<mapsto> new_route ''/hello'' [] ''Hi there'' ''greets the caller'']
   \<and> fst (mux (at_time 42 [''/hello'']) (http_request ''POST'' ''/hello'') no_method_world)
       = Reply 404 ''text/plain; charset=utf-8''
           (Text (error_json ''Route not found for POST /hello'' @ [CHR 0x0A]))"
proof -
  have a: "routes init_world (''/openapi.json'' @ ''GET'') = None"
    by (simp add: init_world_def)
  have b: "fst (mux (at_time 42 []) (http_request ''GET'' ''/openapi.json'') init_world)
       = Reply 200 ''application/json'' (JSON_OpenAPI (openapi_document (routes init_world) []))"
    by (simp add: mux_openapi ServeOpenAPI_def)
  have "routes collision_world (URL_Path (http_request ''GET'' ''/aB'') @ req_Method (http_request ''GET'' ''/aB''))
     = Some (new_route ''/a'' ''BGET'' ''Hi there'' ''greets the caller'')"
    by (simp add: routes_collision_world)
  from Dispatcher_found [OF this, of "at_time 42 [''/aBGET'']"]
  have c: "fst (mux (at_time 42 [''/aBGET'']) (http_request ''GET'' ''/aB'') collision_world)
       = Reply 200 ''application/json''
           (JSON_ApiResponse
              \<lparr>api_Message = ''Hi there'',
               BackgroundTask =
                 \<lparr>task_Message = ''Task started in background: task-42'', TaskID = ''task-42''\<rparr>\<rparr>)"
    by (simp add: mux_ToDispatcher ServeMux_Handler_aB success_envelope_def new_route_def
        task_identifier_def sint_42 Sprintf_d_42)
  let ?r = "http_request ''POST'' ''/hello''" and ?e = "at_time 42 [''/hello'']"
  have "routes no_method_world (URL_Path ?r @ req_Method ?r) = None"
    by (simp add: routes_no_method_world)
  from Dispatcher_not_found [OF this, of ?e]
  have "fst (Dispatcher ?e ?r no_method_world) =
      http_Error (error_json (not_found_message ?r
        (find_supportedMethod (range_routes (routes no_method_world) [''/hello'']) ''/hello''))) 404"
    by simp
  moreover have "find_supportedMethod (range_routes (routes no_method_world) [''/hello'']) ''/hello'' = []"
    by (simp add: range_routes_def routes_no_method_world new_route_def)
  moreover have "not_found_message ?r [] = ''Route not found for POST /hello''"
    by (simp add: not_found_message_def)
  moreover have "mux ?e ?r no_method_world = Dispatcher ?e ?r no_method_world"
    by (simp add: mux_ToDispatcher ServeMux_Handler_hello)
  ultimately have d: "fst (mux ?e ?r no_method_world)
       = Reply 404 ''text/plain; charset=utf-8''
           (Text (error_json ''Route not found for POST /hello'' @ [CHR 0x0A]))"
    by (simp add: http_Error_def)
  from a b c d show ?thesis
    by (simp only: routes_collision_world routes_no_method_world simp_thms)
qed

text \<open>
  Claim C6. Two registrations under the same key (the same path followed by the same
  upper-cased method) leave the registry as it was before them except for that one key,
  which holds the route built from the arguments of the second registration: its path,
  method, message and description, an empty parameter list and the single response entry
  for 200. A request with that path and method is then answered by the dispatcher with the
  message of the second registration, and so is the request through the mux whenever the
  mux hands it to the dispatcher.
\<close>

theorem C6_last_registration_wins:
  assumes "p2 @ ToUpper m2 = p1 @ ToUpper m1" and "encode_err e = None"
  shows "routes (RegisterRoute (Some p2) (Some m2) (Some msg2) (Some d2)
                  (RegisterRoute (Some p1) (Some m1) (Some msg1) (Some d1) w))
           = (routes w)(p1 @ ToUpper m1 \<mapsto>
               \<lparr>Path = p2, Method = ToUpper m2, Message = msg2, Description = d2,
                Parameters = [], Responses = [200 \<mapsto> ''Successful response'']\<rparr>)
         \<and> fst (Dispatcher e \<lparr>req_Method = ToUpper m2, URL_Path = p2, RemoteAddr = a\<rparr>
                  (RegisterRoute (Some p2) (Some m2) (Some msg2) (Some d2)
                    (RegisterRoute (Some p1) (Some m1) (Some msg1) (Some d1) w)))
           = Reply 200 ''application/json''
               (JSON_ApiResponse
                  \<lparr>api_Message = msg2,
                   BackgroundTask =
                     \<lparr>task_Message = ''Task started in background: '' @ task_identifier e,
                      TaskID = task_identifier e\<rparr>\<rparr>)
         \<and> (ServeMux_Handler \<lparr>req_Method = ToUpper m2, URL_Path = p2, RemoteAddr = a\<rparr> = ToDispatcher \<longrightarrow>
              fst (mux e \<lparr>req_Method = ToUpper m2, URL_Path = p2, RemoteAddr = a\<rparr>
                    (RegisterRoute (Some p2) (Some m2) (Some msg2) (Some d2)
                      (RegisterRoute (Some p1) (Some m1) (Some msg1) (Some d1) w)))
              = Reply 200 ''application/json''
                  (JSON_ApiResponse
                     \<lparr>api_Message = msg2,
                      BackgroundTask =
                        \<lparr>task_Message = ''Task started in background: '' @ task_identifier e,
                         TaskID = task_identifier e\<rparr>\<rparr>))"
proof -
  let ?w2 = "register p2 m2 msg2 d2 (register p1 m1 msg1 d1 w)"
  let ?r = "\<lparr>req_Method = ToUpper m2, URL_Path = p2, RemoteAddr = a\<rparr>"
  have r: "routes ?w2 = (routes w)(p1 @ ToUpper m1 \<mapsto> new_route p2 (ToUpper m2) msg2 d2)"
    using assms(1) by (simp add: routes_register)
  then have "routes ?w2 (URL_Path ?r @ req_Method ?r) = Some (new_route p2 (ToUpper m2) msg2 d2)"
    using assms(1) by simp
  from Dispatcher_found [OF this assms(2)]
  have d: "fst (Dispatcher e ?r ?w2) = Reply 200 ''application/json''
               (JSON_ApiResponse
                  \<lparr>api_Message = msg2,
                   BackgroundTask =
                     \<lparr>task_Message = ''Task started in background: '' @ task_identifier e,
                      TaskID = task_identifier e\<rparr>\<rparr>)"
    by (simp add: new_route_def success_envelope_def)
  then have "ServeMux_Handler ?r = ToDispatcher \<longrightarrow>
      fst (mux e ?r ?w2) = Reply 200 ''application/json''
               (JSON_ApiResponse
                  \<lparr>api_Message = msg2,
                   BackgroundTask =
                     \<lparr>task_Message = ''Task started in background: '' @ task_identifier e,
                      TaskID = task_identifier e\<rparr>\<rparr>)"
    by (simp add: mux_ToDispatcher)
  with r d show ?thesis
    by (simp add: register_def new_route_def)
qed

text \<open>
  \<open>/hello\<close> registered for \<open>GET\<close> and then again for \<open>get\<close> with another message.
\<close>

theorem C6_last_registration_wins_witness:
  "routes (RegisterRoute (Some ''/hello'') (Some ''get'') (Some ''Second'') (Some ''later'') hello_world)
     = [''/helloGET'' \<mapsto>
         \<lparr>Path = ''/hello'', Method = ''GET'', Message = ''Second'', Description = ''later'',
          Parameters = [], Responses = [200 \<mapsto> ''Successful response'']\<rparr>]
   \<and> fst (Dispatcher (at_time 42 [''/helloGET'']) (http_request ''GET'' ''/hello'')
           (RegisterRoute (Some ''/hello'') (Some ''get'') (Some ''Second'') (Some ''later'') hello_world))
     = Reply 200 ''application/json''
         (JSON_ApiResponse
            \<lparr>api_Message = ''Second'',
             BackgroundTask =
               \<lparr>task_Message = ''Task started in background: task-42'', TaskID = ''task-42''\<rparr>\<rparr>)"
proof -
  have k: "''/hello'' @ ToUpper ''get'' = ''/hello'' @ ToUpper ''GET''"
    by (simp add: ToUpper_get ToUpper_GET)
  have e: "encode_err (at_time 42 [''/helloGET'']) = None"
    by (simp add: at_time_def)
  from C6_last_registration_wins [OF k e, of "''Second''" "''later''" "''Hi there''" "''greets the caller''" init_world "''127.0.0.1:40000''"]
  show ?thesis
    by (simp add: hello_world_def register_def init_world_def ToUpper_get ToUpper_GET
        http_request_def task_identifier_def at_time_def sint_42 Sprintf_d_42)
qed

text \<open>
  Claim C7. The handler that \<open>StartServer\<close> installs is the composition
  \<open>wrappers[0](wrappers[1](...(mux)))\<close> of the middleware slice as it stands at that moment,
  the first registered middleware outermost. A later \<open>RegisterMiddleware\<close> leaves the
  installed handler as it is, also when it appends to the slice.
\<close>

theorem C7_chain_built_once_in_order:
  "server_Handler (StartServer_start s) = Some (compose_wrappers (middlewares s) mux)
   \<and> server_Handler (RegisterMiddleware cName cEnabled (StartServer_start s))
       = Some (compose_wrappers (middlewares s) mux)
   \<and> middlewares (RegisterMiddleware (Some ''logging'') 1 (StartServer_start s))
       = middlewares s @ [loggingMiddleware]"
proof -
  have built: "server_Handler (StartServer_start s) = Some (compose_wrappers (middlewares s) mux)"
    by (simp add: StartServer_start_def chain_loop_compose)
  have later: "middlewares (RegisterMiddleware (Some ''logging'') 1 (StartServer_start s))
       = middlewares s @ [loggingMiddleware]"
    by (simp add: RegisterMiddleware_def StartServer_start_def)
  from built later show ?thesis
    by (simp only: server_Handler_RegisterMiddleware simp_thms)
qed



text \<open>
  Claim C9, as the code has it. When one of the four arguments is the nil pointer,
  \<open>RegisterRoute\<close> appends one diagnostic line to the log and changes nothing else; the
  registry is as before. When all four point to strings, empty or not, the route is stored.
\<close>

theorem C9_nil_argument_rejected:
  "(cPath = None \<or> cMethod = None \<or> cMessage = None \<or> cDesc = None \<longrightarrow>
      RegisterRoute cPath cMethod cMessage cDesc w
        = w\<lparr>logs := logs w @ [Println ''Error: One or more parameters are nil in RegisterRoute'']\<rparr>
      \<and> routes (RegisterRoute cPath cMethod cMessage cDesc w) = routes w)
   \<and> routes (RegisterRoute (Some p) (Some m) (Some msg) (Some d) w)
       = (routes w)(p @ ToUpper m \<mapsto> new_route p (ToUpper m) msg d)"
  using routes_register [of p m msg d w]
  by (auto simp: RegisterRoute_nil log_write_def register_def)

text \<open>
  A nil path pointer on the registry of the scenario.
\<close>

theorem C9_nil_argument_rejected_witness:
  "routes (RegisterRoute None (Some ''GET'') (Some ''Hi there'') (Some ''greets the caller'') hello_world)
     = routes hello_world
   \<and> logs (RegisterRoute None (Some ''GET'') (Some ''Hi there'') (Some ''greets the caller'') hello_world)
     = logs hello_world @ [Println ''Error: One or more parameters are nil in RegisterRoute'']"
  using C9_nil_argument_rejected [of None "Some ''GET''" "Some ''Hi there''" "Some ''greets the caller''" hello_world]
  by simp

text \<open>
  Claim C9 as it is worded also counts an empty string as a missing input. Four empty
  strings are registered: the registry gets an entry under the empty key.
\<close>

theorem C9_counterexample:
  "routes init_world [] = None
   \<and> routes (RegisterRoute (Some []) (Some []) (Some []) (Some []) init_world) []
       = Some (new_route [] [] [] [])"
  by (simp add: init_world_def RegisterRoute_def Let_def ToUpper_Nil)



end
